theory Spec2Isabelle
  imports Complex_Main
begin

section \<open>Python outcomes\<close>

text \<open>
  A Python call either returns a value or raises. The exceptions that the two notebooks
  can raise by themselves are an unbound global name, a missing attribute and the plain
  \<open>Exception\<close> of \<open>prepare_state\<close>.
\<close>

datatype error = NameError string | AttributeError string | Exception string

datatype 'a outcome = Raise error | Return 'a

text \<open>
  What a call leaves behind besides the block: the lines handed to the loggers and the
  calls of the external solver, in the order they happen.
\<close>

datatype event = Info string | Info_high string | Solve_indexed_blocks

record 'b world =
  blk :: 'b
  events :: "event list"

section \<open>The thermophysical property package\<close>

subsection \<open>Components and parameters\<close>

text \<open>\<open>define_components_and_phases\<close>: the component list, in the order of declaration.\<close>

datatype component = benzene | toluene | methane | hydrogen | diphenyl

definition component_list :: "component list" where
  "component_list = [benzene, toluene, methane, hydrogen, diphenyl]"

text \<open>
  \<open>define_basic_parameters\<close> and \<open>define_specific_heat_parameters\<close>: the parameter
  block that a state block reaches as \<open>self.params\<close>.
\<close>

record hda_parameter_data =
  pressure_ref :: real
  temperature_ref :: real
  cp_mol_ig_comp_coeff_A :: "component \<Rightarrow> real"
  cp_mol_ig_comp_coeff_B :: "component \<Rightarrow> real"
  cp_mol_ig_comp_coeff_C :: "component \<Rightarrow> real"
  cp_mol_ig_comp_coeff_D :: "component \<Rightarrow> real"
  enth_mol_form_vap_comp_ref :: "component \<Rightarrow> real"

definition HDAParameterBlock :: hda_parameter_data where
  "HDAParameterBlock =
     \<lparr> pressure_ref = 101325,
       temperature_ref = 298.15,
       cp_mol_ig_comp_coeff_A =
         (\<lambda>j. case j of benzene \<Rightarrow> - 33.921 | toluene \<Rightarrow> - 24.35 | hydrogen \<Rightarrow> 27.14
                | methane \<Rightarrow> 19.25 | diphenyl \<Rightarrow> - 97.07),
       cp_mol_ig_comp_coeff_B =
         (\<lambda>j. case j of benzene \<Rightarrow> 47.39 | toluene \<Rightarrow> 0.5125 | hydrogen \<Rightarrow> 0.009274
                | methane \<Rightarrow> 0.05213 | diphenyl \<Rightarrow> 1.106),
       cp_mol_ig_comp_coeff_C =
         (\<lambda>j. case j of benzene \<Rightarrow> - 0.0003017 | toluene \<Rightarrow> - 0.0002765
                | hydrogen \<Rightarrow> - 0.00001381 | methane \<Rightarrow> - 0.0008855
                | diphenyl \<Rightarrow> - 0.0008855),
       cp_mol_ig_comp_coeff_D =
         (\<lambda>j. case j of benzene \<Rightarrow> 7.130 / 10 ^ 8 | toluene \<Rightarrow> 4.911 / 10 ^ 8
                | hydrogen \<Rightarrow> 7.645 / 10 ^ 9 | methane \<Rightarrow> - 1.132 / 10 ^ 8
                | diphenyl \<Rightarrow> 2.790 / 10 ^ 7),
       enth_mol_form_vap_comp_ref =
         (\<lambda>j. case j of benzene \<Rightarrow> - 82900 | toluene \<Rightarrow> - 50100 | hydrogen \<Rightarrow> 0
                | methane \<Rightarrow> - 75000 | diphenyl \<Rightarrow> - 180000) \<rparr>"

subsection \<open>A sub-block of the state block\<close>

text \<open>A Pyomo variable: its current value and whether it is fixed.\<close>

record var =
  val :: real
  fixed :: bool

text \<open>
  One \<open>blk[k]\<close>: the configuration flag, the state variables of \<open>add_state_variables\<close>,
  the density and ideal gas equation of \<open>add_molecular_weight_and_density\<close>, and the
  sum of mole fractions constraint, which is \<open>None\<close> while the attribute does not exist
  and otherwise carries its active flag.
\<close>

record state_block_data =
  defined_state :: bool
  flow_mol :: var
  mole_frac_comp :: "component \<Rightarrow> var"
  pressure :: var
  temperature :: var
  dens_mol :: var
  ideal_gas_eq :: bool
  mole_fraction_constraint :: "bool option"

subsection \<open>Mixture enthalpy\<close>

text \<open>
  \<open>add_enth_mol\<close>. The four polynomial differences of the correlation, in the order of
  the source, then the summand of one component and Python's \<open>sum\<close>, which starts from
  0 and adds from the left.
\<close>

definition enth_term_D :: "hda_parameter_data \<Rightarrow> real \<Rightarrow> component \<Rightarrow> real" where
  "enth_term_D params T j =
     (cp_mol_ig_comp_coeff_D params j / 4) * (T ^ 4 - temperature_ref params ^ 4)"

definition enth_term_C :: "hda_parameter_data \<Rightarrow> real \<Rightarrow> component \<Rightarrow> real" where
  "enth_term_C params T j =
     (cp_mol_ig_comp_coeff_C params j / 3) * (T ^ 3 - temperature_ref params ^ 3)"

definition enth_term_B :: "hda_parameter_data \<Rightarrow> real \<Rightarrow> component \<Rightarrow> real" where
  "enth_term_B params T j =
     (cp_mol_ig_comp_coeff_B params j / 2) * (T ^ 2 - temperature_ref params ^ 2)"

definition enth_term_A :: "hda_parameter_data \<Rightarrow> real \<Rightarrow> component \<Rightarrow> real" where
  "enth_term_A params T j = cp_mol_ig_comp_coeff_A params j * (T - temperature_ref params)"

definition enth_mol_comp :: "hda_parameter_data \<Rightarrow> real \<Rightarrow> component \<Rightarrow> real" where
  "enth_mol_comp params T j =
     enth_term_D params T j + enth_term_C params T j + enth_term_B params T j
     + enth_term_A params T j + enth_mol_form_vap_comp_ref params j"

definition enth_mol :: "hda_parameter_data \<Rightarrow> state_block_data \<Rightarrow> real" where
  "enth_mol params self =
     foldl (+) 0
       (map (\<lambda>j. val (mole_frac_comp self j) * enth_mol_comp params (val (temperature self)) j)
          component_list)"

subsection \<open>The consistency constraint\<close>

text \<open>
  \<open>add_mole_fraction_constraint\<close>: the constraint is created, active, only where the
  state is not defined from outside.
\<close>

definition add_mole_fraction_constraint :: "state_block_data \<Rightarrow> state_block_data" where
  "add_mole_fraction_constraint self =
     (if defined_state self = False then self\<lparr>mole_fraction_constraint := Some True\<rparr>
      else self)"

subsection \<open>State variables\<close>

text \<open>
  \<open>return_state_var_dict\<close>: the four state variables, the mole fractions indexed by
  component. A state variable is named together with its index.
\<close>

datatype svar = Flow_mol | Mole_frac_comp component | Temperature | Pressure

definition return_state_var_dict :: "svar list" where
  "return_state_var_dict =
     Flow_mol # map Mole_frac_comp component_list @ [Temperature, Pressure]"

fun get_var :: "state_block_data \<Rightarrow> svar \<Rightarrow> var" where
  "get_var self Flow_mol = flow_mol self"
| "get_var self (Mole_frac_comp j) = mole_frac_comp self j"
| "get_var self Temperature = temperature self"
| "get_var self Pressure = pressure self"

text \<open>One pass over the state variables of a sub-block, changing each in place.\<close>

definition map_state_vars ::
  "(svar \<Rightarrow> var \<Rightarrow> var) \<Rightarrow> state_block_data \<Rightarrow> state_block_data" where
  "map_state_vars f self =
     self\<lparr> flow_mol := f Flow_mol (flow_mol self),
           mole_frac_comp := (\<lambda>j. f (Mole_frac_comp j) (mole_frac_comp self j)),
           temperature := f Temperature (temperature self),
           pressure := f Pressure (pressure self) \<rparr>"

text \<open>
  An indexed state block is the sequence of its keys with their sub-blocks, in the order
  \<open>blk.keys()\<close> yields them. The \<open>state_args\<close> dictionary gives a value to some state
  variables; Python's \<open>None\<close> and the empty dictionary are both the empty map.
\<close>

type_synonym 'k state_block = "('k \<times> state_block_data) list"

type_synonym state_args = "svar \<rightharpoonup> real"

type_synonym 'k fix_flags = "(('k \<times> svar) \<times> bool) list"

subsection \<open>The framework's helpers\<close>

text \<open>
  Modelled from the spec: \<open>fix_state_vars\<close> of the external framework, which the notebook
  imports and does not define. It fixes each state variable that is not fixed yet to the
  value drawn from \<open>state_args\<close>, falling back to the value the variable has, and records
  the prior fixed/free status of every state variable in the FixFlags, keyed by sub-block
  and state variable.
\<close>

definition fix_var :: "state_args \<Rightarrow> svar \<Rightarrow> var \<Rightarrow> var" where
  "fix_var state_args n v =
     (if fixed v then v
      else \<lparr>val = (case state_args n of None \<Rightarrow> val v | Some x \<Rightarrow> x), fixed = True\<rparr>)"

definition flags_of :: "'k \<Rightarrow> state_block_data \<Rightarrow> 'k fix_flags" where
  "flags_of k b = map (\<lambda>n. ((k, n), fixed (get_var b n))) return_state_var_dict"

fun fix_state_vars :: "'k state_block \<Rightarrow> state_args \<Rightarrow> 'k state_block \<times> 'k fix_flags" where
  "fix_state_vars [] state_args = ([], [])"
| "fix_state_vars ((k, b) # rest) state_args =
     (case fix_state_vars rest state_args of
        (rest', flags) \<Rightarrow>
          ((k, map_state_vars (fix_var state_args) b) # rest', flags_of k b @ flags))"

text \<open>
  Modelled from the spec: \<open>revert_state_vars\<close> of the external framework. It gives each
  state variable the fixed/free status that the FixFlags recorded for it. The FixFlags
  hold the status only, so the value of a variable is left as it is.
\<close>

definition revert_var :: "'k fix_flags \<Rightarrow> 'k \<Rightarrow> svar \<Rightarrow> var \<Rightarrow> var" where
  "revert_var flags k n v =
     (case map_of flags (k, n) of None \<Rightarrow> v | Some f \<Rightarrow> v\<lparr>fixed := f\<rparr>)"

definition revert_state_vars :: "'k state_block \<Rightarrow> 'k fix_flags \<Rightarrow> 'k state_block" where
  "revert_state_vars sb flags =
     map (\<lambda>(k, b). (k, map_state_vars (revert_var flags k) b)) sb"

text \<open>
  Modelled from the spec: \<open>number_unfixed_variables\<close> and \<open>degrees_of_freedom\<close> of the
  external framework, for a sub-block alone: the free variables, and the free variables
  minus the active equality constraints.
\<close>

definition number_unfixed_variables :: "state_block_data \<Rightarrow> int" where
  "number_unfixed_variables b =
     int (length (filter (\<lambda>n. \<not> fixed (get_var b n)) return_state_var_dict))
     + (if fixed (dens_mol b) then 0 else 1)"

definition degrees_of_freedom :: "state_block_data \<Rightarrow> int" where
  "degrees_of_freedom b =
     number_unfixed_variables b
     - ((if ideal_gas_eq b then 1 else 0)
        + (if mole_fraction_constraint b = Some True then 1 else 0))"

text \<open>
  The external solver, as \<open>solve_indexed_blocks\<close> sees it: given the indexed block it
  leaves a block behind and either raises (\<open>None\<close>) or returns a result, of which only
  the termination condition is kept.
\<close>

type_synonym 'k solver = "'k state_block \<Rightarrow> string option \<times> 'k state_block"

text \<open>
  Modelled from the spec: \<open>idaeslog.condition\<close> of the external framework, the status
  text of a result; a null result reads as not optimal.
\<close>

definition condition :: "string option \<Rightarrow> string" where
  "condition res = (case res of None \<Rightarrow> ''not optimal'' | Some c \<Rightarrow> c)"

subsection \<open>The initialization routine\<close>

text \<open>
  The two loops of \<open>prepare_state\<close>. The first deactivates the sum of mole fractions
  constraint of every sub-block with \<open>defined_state\<close> false; reading the attribute of a
  sub-block that has no such constraint raises. The second raises at the first sub-block
  whose degrees of freedom are not zero; \<open>degrees_of_freedom\<close> is the framework's.
\<close>

fun deactivate_constraints :: "'k state_block \<Rightarrow> unit outcome \<times> 'k state_block" where
  "deactivate_constraints [] = (Return (), [])"
| "deactivate_constraints ((k, b) # rest) =
     (if defined_state b = False then
        (case mole_fraction_constraint b of
           None \<Rightarrow> (Raise (AttributeError ''mole_fraction_constraint''), (k, b) # rest)
         | Some a \<Rightarrow>
             (case deactivate_constraints rest of
                (r, rest') \<Rightarrow> (r, (k, b\<lparr>mole_fraction_constraint := Some False\<rparr>) # rest')))
      else (case deactivate_constraints rest of (r, rest') \<Rightarrow> (r, (k, b) # rest')))"

definition dof_message :: string where
  "dof_message =
     ''State vars fixed but degrees of freedom'' @ ''for state block is not zero during''
     @ ''initialization.''"

fun check_degrees_of_freedom ::
  "(state_block_data \<Rightarrow> int) \<Rightarrow> 'k state_block \<Rightarrow> unit outcome" where
  "check_degrees_of_freedom dof [] = Return ()"
| "check_degrees_of_freedom dof ((k, b) # rest) =
     (if dof b \<noteq> 0 then Raise (Exception dof_message)
      else check_degrees_of_freedom dof rest)"

definition prepare_state ::
  "(state_block_data \<Rightarrow> int) \<Rightarrow> state_args \<Rightarrow> bool \<Rightarrow> 'k state_block world
     \<Rightarrow> 'k fix_flags option outcome \<times> 'k state_block world" where
  "prepare_state dof state_args state_vars_fixed w =
     (case (if state_vars_fixed = False then
              (case fix_state_vars (blk w) state_args of (b, fl) \<Rightarrow> (b, Some fl))
            else (blk w, None)) of
        (blk1, flags) \<Rightarrow>
          (case deactivate_constraints blk1 of
             (Raise e, blk2) \<Rightarrow> (Raise e, w\<lparr>blk := blk2\<rparr>)
           | (Return u, blk2) \<Rightarrow>
               (case check_degrees_of_freedom dof blk2 of
                  Raise e \<Rightarrow> (Raise e, w\<lparr>blk := blk2\<rparr>)
                | Return u' \<Rightarrow> (Return flags, w\<lparr>blk := blk2\<rparr>))))"

text \<open>
  \<open>initialize_state\<close>. The name \<open>number_unifxed_variables\<close> is bound nowhere in the
  notebook (the import binds \<open>number_unfixed_variables\<close>), so evaluating it raises; and a
  Python string has no attribute \<open>formate\<close>, so looking it up raises before the
  argument is evaluated.
\<close>

definition number_unifxed_variables :: "state_block_data \<Rightarrow> int outcome" where
  "number_unifxed_variables b = Raise (NameError ''number_unifxed_variables'')"

definition formate :: "string \<Rightarrow> string \<Rightarrow> string outcome" where
  "formate s arg = Raise (AttributeError ''formate'')"

fun count_free_vars :: "'k state_block \<Rightarrow> int \<Rightarrow> int outcome" where
  "count_free_vars [] free_vars = Return free_vars"
| "count_free_vars ((k, b) # rest) free_vars =
     (case number_unifxed_variables b of
        Raise e \<Rightarrow> Raise e
      | Return n \<Rightarrow> count_free_vars rest (free_vars + n))"

definition initialize_state ::
  "'k solver \<Rightarrow> 'k state_block world \<Rightarrow> unit outcome \<times> 'k state_block world" where
  "initialize_state solver w =
     (case count_free_vars (blk w) 0 of
        Raise e \<Rightarrow> (Raise e, w)
      | Return free_vars \<Rightarrow>
          (case (if free_vars > 0 then
                   (case solver (blk w) of
                      (res, blk1) \<Rightarrow>
                        (res, w\<lparr>blk := blk1, events := events w @ [Solve_indexed_blocks]\<rparr>))
                 else (None, w)) of
             (res, w1) \<Rightarrow>
               (case formate ''Properties Initialized {}.'' (condition res) of
                  Raise e \<Rightarrow> (Raise e, w1)
                | Return msg \<Rightarrow> (Return (), w1\<lparr>events := events w1 @ [Info msg]\<rparr>))))"

text \<open>
  \<open>unfix_state\<close>, with its loop that activates the constraint again, and the
  \<open>release_state\<close> method, which only calls it.
\<close>

fun activate_constraints :: "'k state_block \<Rightarrow> unit outcome \<times> 'k state_block" where
  "activate_constraints [] = (Return (), [])"
| "activate_constraints ((k, b) # rest) =
     (if defined_state b = False then
        (case mole_fraction_constraint b of
           None \<Rightarrow> (Raise (AttributeError ''mole_fraction_constraint''), (k, b) # rest)
         | Some a \<Rightarrow>
             (case activate_constraints rest of
                (r, rest') \<Rightarrow> (r, (k, b\<lparr>mole_fraction_constraint := Some True\<rparr>) # rest')))
      else (case activate_constraints rest of (r, rest') \<Rightarrow> (r, (k, b) # rest')))"

definition unfix_state ::
  "'k fix_flags option \<Rightarrow> int \<Rightarrow> 'k state_block world
     \<Rightarrow> unit outcome \<times> 'k state_block world" where
  "unfix_state flags outlvl w =
     (case activate_constraints (blk w) of
        (Raise e, blk1) \<Rightarrow> (Raise e, w\<lparr>blk := blk1\<rparr>)
      | (Return u, blk1) \<Rightarrow>
          (Return (),
           w\<lparr> blk := (case flags of None \<Rightarrow> blk1 | Some fl \<Rightarrow> revert_state_vars blk1 fl),
              events := events w @ [Info_high ''State Released.''] \<rparr>))"

definition NOTSET :: int where
  "NOTSET = 0"

definition release_state ::
  "'k fix_flags option \<Rightarrow> int \<Rightarrow> 'k state_block world
     \<Rightarrow> unit outcome \<times> 'k state_block world" where
  "release_state flags outlvl w = unfix_state flags outlvl w"

text \<open>
  \<open>restore_state\<close>: with \<open>hold_state\<close> it returns the flags it was given; otherwise it
  releases the state and returns Python's \<open>None\<close>.
\<close>

definition restore_state ::
  "'k fix_flags option \<Rightarrow> bool \<Rightarrow> 'k state_block world
     \<Rightarrow> 'k fix_flags option outcome \<times> 'k state_block world" where
  "restore_state flags hold_state w =
     (if hold_state = True then (Return flags, w)
      else (case release_state flags NOTSET w of
              (Raise e, w1) \<Rightarrow> (Raise e, w1)
            | (Return u, w1) \<Rightarrow> (Return None, w1)))"

text \<open>
  \<open>_HDAStateBlock.initialize\<close>. It fetches the two loggers first. The framework's logger
  module has no attribute \<open>getSolverLogger\<close> (its function is \<open>getSolveLogger\<close>), so
  that lookup raises before anything else is done. The solver object that \<open>get_solver\<close>
  makes is a parameter. The method ends without a \<open>return\<close>, so what it would return
  is \<open>None\<close>.
\<close>

definition getSolverLogger :: "int \<Rightarrow> unit outcome" where
  "getSolverLogger outlvl = Raise (AttributeError ''getSolverLogger'')"

definition initialize ::
  "(state_block_data \<Rightarrow> int) \<Rightarrow> 'k solver \<Rightarrow> state_args \<Rightarrow> bool \<Rightarrow> bool \<Rightarrow> int
     \<Rightarrow> 'k state_block world \<Rightarrow> 'k fix_flags option outcome \<times> 'k state_block world" where
  "initialize dof solver_obj state_args state_vars_fixed hold_state outlvl w =
     (case getSolverLogger outlvl of
        Raise e \<Rightarrow> (Raise e, w)
      | Return solve_log \<Rightarrow>
          (case prepare_state dof state_args state_vars_fixed w of
             (Raise e, w1) \<Rightarrow> (Raise e, w1)
           | (Return flags, w1) \<Rightarrow>
               (case initialize_state solver_obj w1 of
                  (Raise e, w2) \<Rightarrow> (Raise e, w2)
                | (Return u, w2) \<Rightarrow>
                    (case restore_state flags hold_state w2 of
                       (Raise e, w3) \<Rightarrow> (Raise e, w3)
                     | (Return r, w3) \<Rightarrow>
                         (Return None,
                          w3\<lparr>events := events w3 @ [Info ''Initialization Complete'']\<rparr>)))))"

section \<open>The reaction property package\<close>

text \<open>
  A sub-block of the reaction block: \<open>define_variables_and_parameters\<close>, the active flags
  of the three constraints, and the state block it refers to.
\<close>

record reaction_block_data =
  k_rxn :: var
  reaction_rate :: var
  k_eq :: real
  arrhenius_equation :: bool
  rate_expression :: bool
  equilibrium_constraint :: bool
  state_ref :: state_block_data

subsection \<open>Constraint expressions\<close>

text \<open>
  Pyomo builds a constraint as an expression tree. These are the nodes that the
  equilibrium relation and its quotient form need; evaluation fails, as Python's
  division does, where a divisor is zero.
\<close>

datatype expr =
    Param_k_eq
  | Var_mole_frac_comp component
  | Var_pressure
  | Times expr expr
  | Divide expr expr
  | Power_of expr nat

datatype relation = Equality expr expr

fun eval :: "reaction_block_data \<Rightarrow> expr \<Rightarrow> real option" where
  "eval self Param_k_eq = Some (k_eq self)"
| "eval self (Var_mole_frac_comp j) = Some (val (mole_frac_comp (state_ref self) j))"
| "eval self Var_pressure = Some (val (pressure (state_ref self)))"
| "eval self (Times a b) =
     (case eval self a of None \<Rightarrow> None
      | Some x \<Rightarrow> (case eval self b of None \<Rightarrow> None | Some y \<Rightarrow> Some (x * y)))"
| "eval self (Divide a b) =
     (case eval self a of None \<Rightarrow> None
      | Some x \<Rightarrow> (case eval self b of None \<Rightarrow> None
                   | Some y \<Rightarrow> (if y = 0 then None else Some (x / y))))"
| "eval self (Power_of a n) = (case eval self a of None \<Rightarrow> None | Some x \<Rightarrow> Some (x ^ n))"

fun satisfied :: "reaction_block_data \<Rightarrow> relation \<Rightarrow> bool option" where
  "satisfied self (Equality a b) =
     (case eval self a of None \<Rightarrow> None
      | Some x \<Rightarrow> (case eval self b of None \<Rightarrow> None | Some y \<Rightarrow> Some (x = y)))"

fun has_division :: "expr \<Rightarrow> bool" where
  "has_division Param_k_eq = False"
| "has_division (Var_mole_frac_comp j) = False"
| "has_division Var_pressure = False"
| "has_division (Times a b) = (has_division a \<or> has_division b)"
| "has_division (Divide a b) = True"
| "has_division (Power_of a n) = has_division a"

fun relation_has_division :: "relation \<Rightarrow> bool" where
  "relation_has_division (Equality a b) = (has_division a \<or> has_division b)"

text \<open>\<open>define_equilibrium_expression\<close>: the expression handed to \<open>Constraint\<close>.\<close>

definition define_equilibrium_expression :: relation where
  "define_equilibrium_expression =
     Equality
       (Times (Times Param_k_eq (Var_mole_frac_comp benzene)) Var_pressure)
       (Times (Times (Var_mole_frac_comp diphenyl) (Var_mole_frac_comp hydrogen))
          (Power_of Var_pressure 2))"

text \<open>
  The quotient form that the notebook gives for the equilibrium constant before it is
  rearranged: k_eq = (x_diphenyl * x_hydrogen * P^2) / (x_benzene * P).
\<close>

definition equilibrium_quotient_form :: relation where
  "equilibrium_quotient_form =
     Equality Param_k_eq
       (Divide
          (Times (Times (Var_mole_frac_comp diphenyl) (Var_mole_frac_comp hydrogen))
             (Power_of Var_pressure 2))
          (Times (Var_mole_frac_comp benzene) Var_pressure))"

subsection \<open>Initialization of the reaction block\<close>

text \<open>
  \<open>_HDAReactionBlock.initialize\<close>: fetches the logger and hands it one line. The keyword
  arguments are accepted and never read.
\<close>

type_synonym 'k reaction_block = "('k \<times> reaction_block_data) list"

definition reaction_initialize ::
  "int \<Rightarrow> (string \<times> string) list \<Rightarrow> 'k reaction_block world
     \<Rightarrow> unit outcome \<times> 'k reaction_block world" where
  "reaction_initialize outlvl kwargs w =
     (Return (), w\<lparr>events := events w @ [Info ''Initialization complete.'']\<rparr>)"

section \<open>Sample states\<close>

definition free_var :: "real \<Rightarrow> var" where
  "free_var x = \<lparr>val = x, fixed = False\<rparr>"

definition fixed_var :: "real \<Rightarrow> var" where
  "fixed_var x = \<lparr>val = x, fixed = True\<rparr>"

text \<open>
  A state block at the reference temperature, with the composition of the worked
  example, and the reaction block of the equilibrium scenario: P = 350000,
  k_eq = 10000, x_benzene = 0.7, x_hydrogen = 0.2, x_diphenyl = 0.1.
\<close>

definition sample_state :: state_block_data where
  "sample_state =
     \<lparr> defined_state = False,
       flow_mol = free_var 100,
       mole_frac_comp =
         (\<lambda>j. case j of benzene \<Rightarrow> free_var 0.1 | toluene \<Rightarrow> free_var 0.4
                | methane \<Rightarrow> free_var 0.1 | hydrogen \<Rightarrow> free_var 0.4
                | diphenyl \<Rightarrow> free_var 0),
       pressure = free_var 350000,
       temperature = free_var 298.15,
       dens_mol = free_var 1,
       ideal_gas_eq = True,
       mole_fraction_constraint = Some True \<rparr>"

definition equilibrium_state :: state_block_data where
  "equilibrium_state =
     sample_state
       \<lparr> mole_frac_comp :=
           (\<lambda>j. case j of benzene \<Rightarrow> free_var 0.7 | toluene \<Rightarrow> free_var 0
                  | methane \<Rightarrow> free_var 0 | hydrogen \<Rightarrow> free_var 0.2
                  | diphenyl \<Rightarrow> free_var 0.1) \<rparr>"

definition sample_reaction :: "state_block_data \<Rightarrow> reaction_block_data" where
  "sample_reaction s =
     \<lparr> k_rxn = free_var (7 / 10 ^ 10),
       reaction_rate = free_var 0,
       k_eq = 10000,
       arrhenius_equation = True,
       rate_expression = True,
       equilibrium_constraint = True,
       state_ref = s \<rparr>"

text \<open>A state with benzene present and no pressure.\<close>

definition zero_pressure_state :: state_block_data where
  "zero_pressure_state =
     sample_state
       \<lparr> mole_frac_comp :=
           (\<lambda>j. case j of benzene \<Rightarrow> free_var 1 | toluene \<Rightarrow> free_var 0
                  | methane \<Rightarrow> free_var 0 | hydrogen \<Rightarrow> free_var 0
                  | diphenyl \<Rightarrow> free_var 0),
         pressure := free_var 0 \<rparr>"

text \<open>
  The arguments of the worked example, a sub-block as an inlet has it (every state
  variable fixed, the state defined from outside, no consistency constraint), and a
  sub-block whose density is fixed as well.
\<close>

definition sample_args :: state_args where
  "sample_args = [Flow_mol \<mapsto> 100, Temperature \<mapsto> 600, Pressure \<mapsto> 350000]"

definition inlet_state :: state_block_data where
  "inlet_state =
     (map_state_vars (fix_var Map.empty) sample_state)
       \<lparr>defined_state := True, mole_fraction_constraint := None\<rparr>"

definition overspecified_state :: state_block_data where
  "overspecified_state = sample_state\<lparr>dens_mol := fixed_var 1\<rparr>"

text \<open>Indexed blocks built from them.\<close>

definition sample_world :: "nat state_block world" where
  "sample_world = \<lparr>blk = [(0, sample_state)], events = []\<rparr>"

definition inlet_world :: "nat state_block world" where
  "inlet_world = \<lparr>blk = [(0, inlet_state), (1, sample_state)], events = []\<rparr>"

definition fixed_world :: "nat state_block world" where
  "fixed_world = \<lparr>blk = [(0, inlet_state)], events = []\<rparr>"

text \<open>The sample block after \<open>prepare_state\<close>, and after \<open>unfix_state\<close> on top of it.\<close>

definition prepared_sample :: "nat state_block world" where
  "prepared_sample = snd (prepare_state degrees_of_freedom sample_args False sample_world)"

definition released_sample :: "nat state_block world" where
  "released_sample = snd (unfix_state (Some (flags_of 0 sample_state)) NOTSET prepared_sample)"

section \<open>Auxiliary notions for the protocol\<close>

text \<open>
  What \<open>add_mole_fraction_constraint\<close> establishes when a sub-block is built: a sub-block
  with \<open>defined_state\<close> false has the constraint.
\<close>

definition constraint_built :: "state_block_data \<Rightarrow> bool" where
  "constraint_built b = (defined_state b \<or> mole_fraction_constraint b \<noteq> None)"

text \<open>
  The effect of one round of either loop on a sub-block, the indexed block that
  \<open>prepare_state\<close> leaves behind, and a sub-block after \<open>prepare_state\<close> and
  \<open>unfix_state\<close>.
\<close>

definition set_constraint :: "bool \<Rightarrow> state_block_data \<Rightarrow> state_block_data" where
  "set_constraint a b =
     (if defined_state b = False then b\<lparr>mole_fraction_constraint := Some a\<rparr> else b)"

definition prepared :: "state_args \<Rightarrow> bool \<Rightarrow> 'k state_block \<Rightarrow> 'k state_block" where
  "prepared args svf sb =
     map (\<lambda>(k, b). (k, set_constraint False b))
       (if svf then sb else fst (fix_state_vars sb args))"

definition released ::
  "state_args \<Rightarrow> bool \<Rightarrow> 'k fix_flags \<Rightarrow> 'k \<Rightarrow> state_block_data \<Rightarrow> state_block_data" where
  "released args svf fl k b =
     (if svf then set_constraint True (set_constraint False b)
      else map_state_vars (revert_var fl k)
             (set_constraint True (set_constraint False (map_state_vars (fix_var args) b))))"

section \<open>Properties of the property expressions\<close>

lemma foldl_add_sum_list: "foldl (+) a xs = (a::real) + sum_list xs"
  by (induction xs arbitrary: a) simp_all

lemma enth_mol_sum_list:
  "enth_mol params self =
     (\<Sum>j\<leftarrow>component_list.
        val (mole_frac_comp self j) * enth_mol_comp params (val (temperature self)) j)"
  by (simp add: enth_mol_def foldl_add_sum_list)

text \<open>
  C7. At a temperature equal to the reference temperature each of the four polynomial
  differences of every component is zero, the enthalpy of a component is its reference
  heat of formation, and the mixture enthalpy is the sum over the components of mole
  fraction times reference heat of formation.
\<close>

theorem enth_mol_at_reference_temperature:
  assumes "val (temperature self) = temperature_ref params"
  shows "enth_term_A params (val (temperature self)) j = 0
       \<and> enth_term_B params (val (temperature self)) j = 0
       \<and> enth_term_C params (val (temperature self)) j = 0
       \<and> enth_term_D params (val (temperature self)) j = 0
       \<and> enth_mol_comp params (val (temperature self)) j = enth_mol_form_vap_comp_ref params j
       \<and> enth_mol params self =
           (\<Sum>j\<leftarrow>component_list.
              val (mole_frac_comp self j) * enth_mol_form_vap_comp_ref params j)"
proof -
  have terms: "enth_term_A params (val (temperature self)) i = 0"
    "enth_term_B params (val (temperature self)) i = 0"
    "enth_term_C params (val (temperature self)) i = 0"
    "enth_term_D params (val (temperature self)) i = 0" for i
    using assms
    by (simp_all add: enth_term_A_def enth_term_B_def enth_term_C_def enth_term_D_def)
  have comp: "enth_mol_comp params (val (temperature self)) i
                = enth_mol_form_vap_comp_ref params i" for i
    by (simp add: enth_mol_comp_def terms)
  show ?thesis
    by (simp add: terms comp enth_mol_sum_list)
qed

theorem enth_mol_at_reference_temperature_witness:
  "val (temperature sample_state) = temperature_ref HDAParameterBlock
   \<and> enth_term_D HDAParameterBlock (val (temperature sample_state)) benzene = 0
   \<and> enth_mol_comp HDAParameterBlock (val (temperature sample_state)) benzene = - 82900
   \<and> enth_mol HDAParameterBlock sample_state = - 35830"
proof -
  have h: "val (temperature sample_state) = temperature_ref HDAParameterBlock"
    by (simp add: sample_state_def HDAParameterBlock_def free_var_def)
  have "(\<Sum>j\<leftarrow>component_list.
           val (mole_frac_comp sample_state j) * enth_mol_form_vap_comp_ref HDAParameterBlock j)
        = - 35830"
    by (simp add: component_list_def sample_state_def HDAParameterBlock_def free_var_def)
  moreover have "enth_mol_form_vap_comp_ref HDAParameterBlock benzene = - 82900"
    by (simp add: HDAParameterBlock_def)
  ultimately show ?thesis
    using h enth_mol_at_reference_temperature [OF h, of benzene] by simp
qed

text \<open>
  C8, as amended. The equilibrium constraint is the product form
  k_eq * x_benzene * P == x_diphenyl * x_hydrogen * P^2, with no division in it. In a
  state with x_benzene > 0 and P different from 0 it holds exactly when the quotient form
  k_eq == (x_diphenyl * x_hydrogen * P^2) / (x_benzene * P) holds.
\<close>

theorem equilibrium_expression_multiplied_through:
  assumes "val (mole_frac_comp (state_ref self) benzene) > 0"
      and "val (pressure (state_ref self)) \<noteq> 0"
  shows "define_equilibrium_expression =
           Equality
             (Times (Times Param_k_eq (Var_mole_frac_comp benzene)) Var_pressure)
             (Times (Times (Var_mole_frac_comp diphenyl) (Var_mole_frac_comp hydrogen))
                (Power_of Var_pressure 2))
       \<and> relation_has_division define_equilibrium_expression = False
       \<and> satisfied self define_equilibrium_expression =
           Some (k_eq self * val (mole_frac_comp (state_ref self) benzene)
                   * val (pressure (state_ref self))
                 = val (mole_frac_comp (state_ref self) diphenyl)
                   * val (mole_frac_comp (state_ref self) hydrogen)
                   * val (pressure (state_ref self)) ^ 2)
       \<and> satisfied self equilibrium_quotient_form =
           Some (k_eq self
                 = (val (mole_frac_comp (state_ref self) diphenyl)
                    * val (mole_frac_comp (state_ref self) hydrogen)
                    * val (pressure (state_ref self)) ^ 2)
                   / (val (mole_frac_comp (state_ref self) benzene)
                      * val (pressure (state_ref self))))
       \<and> satisfied self define_equilibrium_expression
           = satisfied self equilibrium_quotient_form"
proof -
  let ?xb = "val (mole_frac_comp (state_ref self) benzene)"
  let ?P = "val (pressure (state_ref self))"
  have nz: "?xb * ?P \<noteq> 0" using assms by simp
  have eqv: "(k_eq self * ?xb * ?P = c) = (k_eq self = c / (?xb * ?P))" for c
    using nz by (simp add: field_simps)
  show ?thesis
    using nz eqv
    by (simp add: define_equilibrium_expression_def equilibrium_quotient_form_def)
qed

theorem equilibrium_expression_multiplied_through_witness:
  "val (mole_frac_comp (state_ref (sample_reaction equilibrium_state)) benzene) > 0
   \<and> val (pressure (state_ref (sample_reaction equilibrium_state))) = 350000
   \<and> k_eq (sample_reaction equilibrium_state) = 10000
   \<and> satisfied (sample_reaction equilibrium_state) define_equilibrium_expression = Some True
   \<and> satisfied (sample_reaction equilibrium_state) equilibrium_quotient_form = Some True"
proof -
  have h1: "val (mole_frac_comp (state_ref (sample_reaction equilibrium_state)) benzene) > 0"
    by (simp add: sample_reaction_def equilibrium_state_def free_var_def)
  have h2: "val (pressure (state_ref (sample_reaction equilibrium_state))) \<noteq> 0"
    by (simp add: sample_reaction_def equilibrium_state_def sample_state_def free_var_def)
  show ?thesis
    using equilibrium_expression_multiplied_through [OF h1 h2]
    by (simp add: sample_reaction_def equilibrium_state_def sample_state_def free_var_def)
qed

text \<open>
  With benzene present and the pressure at zero the product form holds and the quotient
  form has no value; read with the total division of HOL it is false.
\<close>

theorem equilibrium_quotient_form_undefined_at_zero_pressure:
  "val (mole_frac_comp (state_ref (sample_reaction zero_pressure_state)) benzene) > 0
   \<and> satisfied (sample_reaction zero_pressure_state) define_equilibrium_expression = Some True
   \<and> satisfied (sample_reaction zero_pressure_state) equilibrium_quotient_form = None
   \<and> (k_eq (sample_reaction zero_pressure_state)
        = (val (mole_frac_comp (state_ref (sample_reaction zero_pressure_state)) diphenyl)
           * val (mole_frac_comp (state_ref (sample_reaction zero_pressure_state)) hydrogen)
           * val (pressure (state_ref (sample_reaction zero_pressure_state))) ^ 2)
          / (val (mole_frac_comp (state_ref (sample_reaction zero_pressure_state)) benzene)
             * val (pressure (state_ref (sample_reaction zero_pressure_state))))) = False"
  by (simp add: sample_reaction_def zero_pressure_state_def sample_state_def free_var_def
      define_equilibrium_expression_def equilibrium_quotient_form_def)

text \<open>
  C10. \<open>_HDAReactionBlock.initialize\<close> returns after handing one line to the logger: the
  reaction block, with every variable and every constraint in it, is unchanged, and no
  solver call is added to the events.
\<close>

theorem reaction_initialize_only_logs:
  "reaction_initialize outlvl kwargs w =
     (Return (), w\<lparr>events := events w @ [Info ''Initialization complete.'']\<rparr>)
   \<and> blk (snd (reaction_initialize outlvl kwargs w)) = blk w
   \<and> filter (\<lambda>e. e = Solve_indexed_blocks) (events (snd (reaction_initialize outlvl kwargs w)))
       = filter (\<lambda>e. e = Solve_indexed_blocks) (events w)"
  by (simp add: reaction_initialize_def)

section \<open>Properties of the initialization routine\<close>

subsection \<open>Evaluation of the samples\<close>

lemmas sample_defs =
  sample_world_def sample_state_def sample_args_def free_var_def fixed_var_def
  overspecified_state_def degrees_of_freedom_def number_unfixed_variables_def
  return_state_var_dict_def component_list_def map_state_vars_def fix_var_def
  constraint_built_def flags_of_def

subsection \<open>The solve step\<close>

lemma count_free_vars_cases:
  "count_free_vars sb n =
     (if sb = [] then Return n else Raise (NameError ''number_unifxed_variables''))"
  by (cases sb) (auto simp: number_unifxed_variables_def)

lemma initialize_state_raises:
  "initialize_state solver w =
     (Raise (if blk w = [] then AttributeError ''formate''
             else NameError ''number_unifxed_variables''), w)"
  by (simp add: initialize_state_def count_free_vars_cases formate_def)

text \<open>
  C4. As written, \<open>initialize_state\<close> raises on every block and with every solver: a
  NameError at the first sub-block, for the unbound name \<open>number_unifxed_variables\<close>, and
  an AttributeError for \<open>formate\<close> when the block has no sub-block. The block and the
  events are left as they were: the solver is not called and no line is logged.
\<close>

theorem initialize_state_always_raises:
  "initialize_state solver w =
     (Raise (if blk w = [] then AttributeError ''formate''
             else NameError ''number_unifxed_variables''), w)"
  by (rule initialize_state_raises)

text \<open>
  C5. On the sample block, which has nine free variables, \<open>initialize_state\<close> raises the
  NameError and the solver is not called.
\<close>

theorem initialize_state_skips_solver_with_free_vars:
  "number_unfixed_variables sample_state = 9
   \<and> initialize_state solver sample_world
       = (Raise (NameError ''number_unifxed_variables''), sample_world)
   \<and> events (snd (initialize_state solver sample_world)) = []"
  by (simp add: initialize_state_raises sample_world_def number_unfixed_variables_def
      return_state_var_dict_def component_list_def sample_state_def free_var_def)

text \<open>
  C9. \<open>initialize\<close> returns on no input, whatever \<open>hold_state\<close> is: it ends with the
  AttributeError of the \<open>getSolverLogger\<close> lookup, before \<open>prepare_state\<close> is called,
  and leaves the block and the events as they were. So it does not return \<open>None\<close>; on
  the sample block this is so with \<open>hold_state\<close> true as well as false.
\<close>

theorem initialize_raises_instead_of_returning:
  "initialize dof solver_obj state_args state_vars_fixed hold_state outlvl w
     = (Raise (AttributeError ''getSolverLogger''), w)
   \<and> fst (initialize dof solver_obj state_args state_vars_fixed hold_state outlvl w) \<noteq> Return r
   \<and> initialize degrees_of_freedom solver sample_args False True NOTSET sample_world
     = (Raise (AttributeError ''getSolverLogger''), sample_world)
   \<and> initialize degrees_of_freedom solver sample_args False False NOTSET sample_world
     = (Raise (AttributeError ''getSolverLogger''), sample_world)"
  by (simp add: initialize_def getSolverLogger_def)

subsection \<open>State variables and flags\<close>

lemma every_svar_listed: "n \<in> set return_state_var_dict"
proof (cases n)
  case (Mole_frac_comp j)
  then show ?thesis
    by (cases j) (simp_all add: return_state_var_dict_def component_list_def)
qed (simp_all add: return_state_var_dict_def)

lemma get_var_map_state_vars [simp]:
  "get_var (map_state_vars f b) n = f n (get_var b n)"
  by (cases n) (simp_all add: map_state_vars_def)

lemma map_state_vars_frame [simp]:
  "defined_state (map_state_vars f b) = defined_state b"
  "dens_mol (map_state_vars f b) = dens_mol b"
  "ideal_gas_eq (map_state_vars f b) = ideal_gas_eq b"
  "mole_fraction_constraint (map_state_vars f b) = mole_fraction_constraint b"
  by (simp_all add: map_state_vars_def)

lemma get_var_set_constraint [simp]: "get_var (set_constraint a b) n = get_var b n"
  by (cases n) (simp_all add: set_constraint_def)

lemma set_constraint_frame [simp]:
  "defined_state (set_constraint a b) = defined_state b"
  "dens_mol (set_constraint a b) = dens_mol b"
  "ideal_gas_eq (set_constraint a b) = ideal_gas_eq b"
  "mole_fraction_constraint (set_constraint a b) =
     (if defined_state b then mole_fraction_constraint b else Some a)"
  by (simp_all add: set_constraint_def)

lemma constraint_built_set_constraint [simp]: "constraint_built (set_constraint a b)"
  by (simp add: constraint_built_def)

lemma constraint_built_map_state_vars [simp]:
  "constraint_built (map_state_vars f b) = constraint_built b"
  by (simp add: constraint_built_def)

lemma constraint_built_add_mole_fraction_constraint:
  "mole_fraction_constraint b = None \<Longrightarrow>
     constraint_built (add_mole_fraction_constraint b)"
  by (auto simp: constraint_built_def add_mole_fraction_constraint_def)

lemma fix_state_vars_fst:
  "fst (fix_state_vars sb args) = map (\<lambda>(k, b). (k, map_state_vars (fix_var args) b)) sb"
  by (induction sb) (auto split: prod.splits)

lemma fix_state_vars_snd:
  "snd (fix_state_vars sb args) = concat (map (\<lambda>(k, b). flags_of k b) sb)"
  by (induction sb) (auto split: prod.splits)

lemma map_of_flags_of:
  "map_of (flags_of k b) (k', n) = (if k' = k then Some (fixed (get_var b n)) else None)"
proof -
  have "map_of (map (\<lambda>n. ((k, n), fixed (get_var b n))) ns) (k', n)
          = (if k' = k \<and> n \<in> set ns then Some (fixed (get_var b n)) else None)" for ns
    by (induction ns) auto
  then show ?thesis
    by (simp add: flags_of_def every_svar_listed)
qed

lemma map_of_recorded_flags:
  assumes "distinct (map fst sb)" and "(k, b) \<in> set sb"
  shows "map_of (concat (map (\<lambda>(k, b). flags_of k b) sb)) (k, n) = Some (fixed (get_var b n))"
  using assms
proof (induction sb)
  case Nil
  then show ?case by simp
next
  case (Cons kb sb)
  obtain k' b' where kb: "kb = (k', b')" by (cases kb)
  show ?case
  proof (cases "k' = k")
    case True
    with Cons.prems kb have "b' = b"
      by (auto simp: image_iff)
    with True kb show ?thesis
      by (simp add: map_add_def map_of_flags_of)
  next
    case False
    with Cons kb show ?thesis
      by (auto simp: map_add_def map_of_flags_of)
  qed
qed

subsection \<open>The loops\<close>

lemma deactivate_constraints_built:
  "list_all (\<lambda>(k, b). constraint_built b) sb \<Longrightarrow>
     deactivate_constraints sb = (Return (), map (\<lambda>(k, b). (k, set_constraint False b)) sb)"
  by (induction sb) (auto simp: constraint_built_def set_constraint_def)

lemma deactivate_constraints_Return:
  "fst (deactivate_constraints sb) = Return u \<Longrightarrow> list_all (\<lambda>(k, b). constraint_built b) sb"
  by (induction sb) (auto simp: constraint_built_def split: if_splits option.splits prod.splits)

lemma activate_constraints_built:
  "list_all (\<lambda>(k, b). constraint_built b) sb \<Longrightarrow>
     activate_constraints sb = (Return (), map (\<lambda>(k, b). (k, set_constraint True b)) sb)"
  by (induction sb) (auto simp: constraint_built_def set_constraint_def)

lemma check_degrees_of_freedom_eq:
  "check_degrees_of_freedom dof sb =
     (if list_all (\<lambda>(k, b). dof b = 0) sb then Return () else Raise (Exception dof_message))"
  by (induction sb) auto

lemma deactivate_constraints_length:
  "length (snd (deactivate_constraints sb)) = length sb"
  by (induction sb) (auto split: prod.splits option.splits)

lemma activate_constraints_length:
  "length (snd (activate_constraints sb)) = length sb"
  by (induction sb) (auto split: prod.splits option.splits)

lemma deactivate_constraints_defined_state:
  "i < length sb \<Longrightarrow> defined_state (snd (sb ! i)) \<Longrightarrow>
     snd (deactivate_constraints sb) ! i = sb ! i"
proof (induction sb arbitrary: i)
  case Nil
  then show ?case by simp
next
  case (Cons kb sb)
  then show ?case
    by (cases kb; cases i) (auto split: prod.splits option.splits)
qed

lemma activate_constraints_defined_state:
  "i < length sb \<Longrightarrow> defined_state (snd (sb ! i)) \<Longrightarrow>
     snd (activate_constraints sb) ! i = sb ! i"
proof (induction sb arbitrary: i)
  case Nil
  then show ?case by simp
next
  case (Cons kb sb)
  then show ?case
    by (cases kb; cases i) (auto split: prod.splits option.splits)
qed

text \<open>
  C6. A sub-block with \<open>defined_state\<close> true gets no constraint from
  \<open>add_mole_fraction_constraint\<close>, and the deactivation loop of \<open>prepare_state\<close> and the
  activation loop of \<open>unfix_state\<close> leave it as it is. On a sub-block without the
  attribute, \<open>add_mole_fraction_constraint\<close> creates the constraint exactly when
  \<open>defined_state\<close> is false.
\<close>

theorem defined_state_owns_no_consistency_constraint:
  assumes "i < length sb" and "defined_state (snd (sb ! i))"
  shows "add_mole_fraction_constraint (snd (sb ! i)) = snd (sb ! i)
       \<and> mole_fraction_constraint
           (add_mole_fraction_constraint (b\<lparr>mole_fraction_constraint := None\<rparr>))
           = (if defined_state b then None else Some True)
       \<and> length (snd (deactivate_constraints sb)) = length sb
       \<and> snd (deactivate_constraints sb) ! i = sb ! i
       \<and> length (snd (activate_constraints sb)) = length sb
       \<and> snd (activate_constraints sb) ! i = sb ! i"
  using assms
  by (simp add: add_mole_fraction_constraint_def deactivate_constraints_length
      activate_constraints_length deactivate_constraints_defined_state
      activate_constraints_defined_state)

theorem defined_state_owns_no_consistency_constraint_witness:
  "(0::nat) < length (blk inlet_world)
   \<and> defined_state (snd (blk inlet_world ! 0))
   \<and> mole_fraction_constraint (add_mole_fraction_constraint (snd (blk inlet_world ! 0))) = None
   \<and> snd (deactivate_constraints (blk inlet_world)) ! 0 = (0, inlet_state)
   \<and> snd (activate_constraints (blk inlet_world)) ! 0 = (0, inlet_state)
   \<and> mole_fraction_constraint (snd (snd (deactivate_constraints (blk inlet_world)) ! 1))
       = Some False"
proof -
  have h1: "(0::nat) < length (blk inlet_world)"
    by (simp add: inlet_world_def)
  have h2: "defined_state (snd (blk inlet_world ! 0))"
    by (simp add: inlet_world_def inlet_state_def)
  have m: "mole_fraction_constraint (snd (blk inlet_world ! 0)) = None"
    by (simp add: inlet_world_def inlet_state_def)
  have z: "blk inlet_world ! 0 = (0, inlet_state)"
    by (simp add: inlet_world_def)
  have d: "mole_fraction_constraint (snd (snd (deactivate_constraints (blk inlet_world)) ! 1))
             = Some False"
    by (simp add: inlet_world_def inlet_state_def sample_state_def)
  show ?thesis
    using defined_state_owns_no_consistency_constraint [OF h1 h2] h1 h2 m z d by simp
qed

subsection \<open>Preparing the state\<close>

lemma list_all_built_fix:
  "list_all (\<lambda>(k, b). constraint_built b) (fst (fix_state_vars sb args))
     = list_all (\<lambda>(k, b). constraint_built b) sb"
  by (simp add: fix_state_vars_fst list_all_iff split_def)

lemma prepare_state_built:
  assumes "list_all (\<lambda>(k, b). constraint_built b) (blk w)"
  shows "prepare_state dof args svf w =
           (if list_all (\<lambda>(k, b). dof b = 0) (prepared args svf (blk w))
            then Return (if svf then None else Some (snd (fix_state_vars (blk w) args)))
            else Raise (Exception dof_message),
            w\<lparr>blk := prepared args svf (blk w)\<rparr>)"
proof (cases svf)
  case True
  with assms show ?thesis
    by (simp add: prepare_state_def prepared_def deactivate_constraints_built
        check_degrees_of_freedom_eq)
next
  case False
  obtain sb1 fl where f: "fix_state_vars (blk w) args = (sb1, fl)"
    by (cases "fix_state_vars (blk w) args")
  have "list_all (\<lambda>(k, b). constraint_built b) sb1"
    using assms list_all_built_fix [of "blk w" args] f by simp
  then have "deactivate_constraints sb1
               = (Return (), map (\<lambda>(k, b). (k, set_constraint False b)) sb1)"
    by (rule deactivate_constraints_built)
  with False f show ?thesis
    by (simp add: prepare_state_def prepared_def check_degrees_of_freedom_eq)
qed

lemma prepare_state_Return:
  assumes "prepare_state dof args svf w = (Return flags, w1)"
  shows "list_all (\<lambda>(k, b). constraint_built b) (blk w)"
  using assms deactivate_constraints_Return [of "fst (fix_state_vars (blk w) args)"]
    deactivate_constraints_Return [of "blk w"]
  by (cases svf)
     (auto simp: prepare_state_def list_all_built_fix
        split: prod.splits outcome.splits if_splits)




subsection \<open>Releasing the state\<close>

lemma prepared_built: "list_all (\<lambda>(k, b). constraint_built b) (prepared args svf sb)"
  by (simp add: prepared_def list_all_iff split_def)

lemma unfix_state_prepared:
  "unfix_state flags outlvl (w\<lparr>blk := prepared args svf sb\<rparr>) =
     (Return (),
      w\<lparr> blk := (case flags of
                   None \<Rightarrow> map (\<lambda>(k, b). (k, set_constraint True b)) (prepared args svf sb)
                 | Some fl \<Rightarrow>
                     revert_state_vars
                       (map (\<lambda>(k, b). (k, set_constraint True b)) (prepared args svf sb)) fl),
         events := events w @ [Info_high ''State Released.''] \<rparr>)"
  by (simp add: unfix_state_def activate_constraints_built [OF prepared_built])

lemma released_block:
  assumes "distinct (map fst sb)" and "(k, b) \<in> set sb"
  shows "fixed (get_var
                  (map_state_vars (revert_var (snd (fix_state_vars sb args)) k)
                     (set_constraint True (set_constraint False
                        (map_state_vars (fix_var args) b)))) n)
           = fixed (get_var b n)"
    and "val (get_var
                (map_state_vars (revert_var (snd (fix_state_vars sb args)) k)
                   (set_constraint True (set_constraint False
                      (map_state_vars (fix_var args) b)))) n)
           = (if fixed (get_var b n) then val (get_var b n)
              else case args n of None \<Rightarrow> val (get_var b n) | Some x \<Rightarrow> x)"
  using map_of_recorded_flags [OF assms, of n]
  by (simp_all add: fix_state_vars_snd revert_var_def fix_var_def)

lemma released_frame [simp]:
  "mole_fraction_constraint (released args svf fl k b) =
     (if defined_state b then mole_fraction_constraint b else Some True)"
  "defined_state (released args svf fl k b) = defined_state b"
  "dens_mol (released args svf fl k b) = dens_mol b"
  "ideal_gas_eq (released args svf fl k b) = ideal_gas_eq b"
  by (simp_all add: released_def)

lemma released_vars:
  assumes "distinct (map fst sb)" and "(k, b) \<in> set sb"
  shows "fixed (get_var (released args svf (snd (fix_state_vars sb args)) k b) n)
           = fixed (get_var b n)"
    and "val (get_var (released args svf (snd (fix_state_vars sb args)) k b) n)
           = (if svf \<or> fixed (get_var b n) then val (get_var b n)
              else case args n of None \<Rightarrow> val (get_var b n) | Some x \<Rightarrow> x)"
  using released_block [OF assms, of args n] by (simp_all add: released_def)

lemma unfix_state_after_prepare_state:
  assumes "prepare_state dof args svf w = (Return flags, w1)"
  shows "flags = (if svf then None else Some (snd (fix_state_vars (blk w) args)))"
    and "w1 = w\<lparr>blk := prepared args svf (blk w)\<rparr>"
    and "unfix_state flags outlvl w1 =
           (Return (),
            w\<lparr> blk := map (\<lambda>(k, b). (k, released args svf (snd (fix_state_vars (blk w) args)) k b))
                         (blk w),
               events := events w @ [Info_high ''State Released.''] \<rparr>)"
proof -
  have built: "list_all (\<lambda>(k, b). constraint_built b) (blk w)"
    using assms by (rule prepare_state_Return)
  note p = prepare_state_built [OF built, of dof args svf]
  from assms p show fl: "flags = (if svf then None else Some (snd (fix_state_vars (blk w) args)))"
    and w1: "w1 = w\<lparr>blk := prepared args svf (blk w)\<rparr>"
    by (auto split: if_splits)
  show "unfix_state flags outlvl w1 =
           (Return (),
            w\<lparr> blk := map (\<lambda>(k, b). (k, released args svf (snd (fix_state_vars (blk w) args)) k b))
                         (blk w),
               events := events w @ [Info_high ''State Released.''] \<rparr>)"
    unfolding fl w1 unfix_state_prepared
    by (cases svf)
       (simp_all add: prepared_def revert_state_vars_def fix_state_vars_fst split_def
          released_def)
qed

lemma prepared_all_fixed:
  "list_all (\<lambda>(k, b). \<forall>n. fixed (get_var b n)) (prepared args False sb)"
  by (simp add: prepared_def fix_state_vars_fst list_all_iff split_def fix_var_def)

lemma prepare_sample:
  "prepare_state degrees_of_freedom sample_args False sample_world
     = (Return (Some (flags_of 0 sample_state)), prepared_sample)"
  unfolding prepared_sample_def
  by (rule prod_eqI) (simp_all add: prepare_state_def sample_defs)

text \<open>
  C1, as amended. Let \<open>prepare_state\<close> be called with \<open>state_vars_fixed\<close> false on an
  indexed block with distinct keys, and return. Then \<open>unfix_state\<close> with the flags it
  returned succeeds and gives every state variable of every sub-block the fixed/free
  status it had before \<open>prepare_state\<close>. A state variable that was free and has a value
  in \<open>state_args\<close> keeps that value, every other state variable has the value it had.
  The sum of mole fractions constraint is active on every sub-block with
  \<open>defined_state\<close> false, and \<open>defined_state\<close>, the density and the ideal gas equation
  are as before.
\<close>

theorem release_after_prepare_restores_status:
  assumes "distinct (map fst (blk w))"
      and "prepare_state dof state_args False w = (Return flags, w1)"
  shows "flags = Some (snd (fix_state_vars (blk w) state_args))
       \<and> fst (unfix_state flags outlvl w1) = Return ()
       \<and> events (snd (unfix_state flags outlvl w1)) = events w @ [Info_high ''State Released.'']
       \<and> list_all2
           (\<lambda>(k', b') (k, b).
              k' = k
              \<and> (\<forall>n. fixed (get_var b' n) = fixed (get_var b n)
                     \<and> val (get_var b' n) =
                         (if fixed (get_var b n) then val (get_var b n)
                          else case state_args n of None \<Rightarrow> val (get_var b n) | Some x \<Rightarrow> x))
              \<and> mole_fraction_constraint b' =
                  (if defined_state b then mole_fraction_constraint b else Some True)
              \<and> defined_state b' = defined_state b
              \<and> dens_mol b' = dens_mol b
              \<and> ideal_gas_eq b' = ideal_gas_eq b)
           (blk (snd (unfix_state flags outlvl w1))) (blk w)"
proof -
  note a = unfix_state_after_prepare_state [OF assms(2)]
  let ?f = "\<lambda>(k, b). (k, released state_args False (snd (fix_state_vars (blk w) state_args)) k b)"
  have rel: "list_all2
           (\<lambda>(k', b') (k, b).
              k' = k
              \<and> (\<forall>n. fixed (get_var b' n) = fixed (get_var b n)
                     \<and> val (get_var b' n) =
                         (if fixed (get_var b n) then val (get_var b n)
                          else case state_args n of None \<Rightarrow> val (get_var b n) | Some x \<Rightarrow> x))
              \<and> mole_fraction_constraint b' =
                  (if defined_state b then mole_fraction_constraint b else Some True)
              \<and> defined_state b' = defined_state b
              \<and> dens_mol b' = dens_mol b
              \<and> ideal_gas_eq b' = ideal_gas_eq b)
           (map ?f (blk w)) (blk w)"
    unfolding list_all2_map1 list_all2_same
    using released_vars [OF assms(1), where args = state_args and svf = False]
    by (auto simp: split_def)
  have c1: "flags = Some (snd (fix_state_vars (blk w) state_args))"
    using a(1) by simp
  have c2: "fst (unfix_state flags outlvl w1) = Return ()"
    by (simp add: a(3))
  have c3: "events (snd (unfix_state flags outlvl w1))
              = events w @ [Info_high ''State Released.'']"
    by (simp add: a(3))
  have c4: "blk (snd (unfix_state flags outlvl w1)) = map ?f (blk w)"
    by (simp add: a(3))
  from c1 c2 c3 rel [folded c4] show ?thesis
    by blast
qed

theorem release_after_prepare_restores_status_witness:
  "distinct (map fst (blk sample_world))
   \<and> prepare_state degrees_of_freedom sample_args False sample_world
       = (Return (Some (flags_of 0 sample_state)), prepared_sample)
   \<and> fst (unfix_state (Some (flags_of 0 sample_state)) NOTSET prepared_sample) = Return ()
   \<and> (\<exists>b'. blk released_sample = [(0, b')]
            \<and> fixed (temperature b') = fixed (temperature sample_state)
            \<and> fixed (mole_frac_comp b' benzene) = fixed (mole_frac_comp sample_state benzene)
            \<and> val (mole_frac_comp b' benzene) = val (mole_frac_comp sample_state benzene)
            \<and> val (temperature b') = 600
            \<and> mole_fraction_constraint b' = Some True)"
proof -
  have h1: "distinct (map fst (blk sample_world))"
    by (simp add: sample_world_def)
  note t = release_after_prepare_restores_status [OF h1 prepare_sample, of NOTSET]
  then have r: "list_all2
           (\<lambda>(k', b') (k, b).
              k' = k
              \<and> (\<forall>n. fixed (get_var b' n) = fixed (get_var b n)
                     \<and> val (get_var b' n) =
                         (if fixed (get_var b n) then val (get_var b n)
                          else case sample_args n of None \<Rightarrow> val (get_var b n) | Some x \<Rightarrow> x))
              \<and> mole_fraction_constraint b' =
                  (if defined_state b then mole_fraction_constraint b else Some True)
              \<and> defined_state b' = defined_state b
              \<and> dens_mol b' = dens_mol b
              \<and> ideal_gas_eq b' = ideal_gas_eq b)
           (blk released_sample) [(0, sample_state)]"
    by (simp add: released_sample_def sample_world_def)
  then obtain b' where b: "blk released_sample = [(0, b')]"
    and v: "\<And>n. fixed (get_var b' n) = fixed (get_var sample_state n)
               \<and> val (get_var b' n) =
                   (if fixed (get_var sample_state n) then val (get_var sample_state n)
                    else case sample_args n of None \<Rightarrow> val (get_var sample_state n)
                         | Some x \<Rightarrow> x)"
    and m: "mole_fraction_constraint b' =
              (if defined_state sample_state then mole_fraction_constraint sample_state
               else Some True)"
    by (auto simp: list_all2_Cons2)
  have "fixed (temperature b') = fixed (temperature sample_state)"
    "val (temperature b') = 600"
    using v [of Temperature] by (simp_all add: sample_state_def sample_args_def free_var_def)
  moreover have "fixed (mole_frac_comp b' benzene) = fixed (mole_frac_comp sample_state benzene)"
    "val (mole_frac_comp b' benzene) = val (mole_frac_comp sample_state benzene)"
    using v [of "Mole_frac_comp benzene"]
    by (simp_all add: sample_state_def sample_args_def free_var_def)
  moreover have "mole_fraction_constraint b' = Some True"
    using m by (simp add: sample_state_def)
  ultimately show ?thesis
    using h1 prepare_sample t b by blast
qed

text \<open>
  The values are not restored: the temperature of the sample block is free at 298.15,
  \<open>state_args\<close> gives 600, and the released block has 600.
\<close>

theorem release_after_prepare_keeps_state_args_value:
  "prepare_state degrees_of_freedom sample_args False sample_world
     = (Return (Some (flags_of 0 sample_state)), prepared_sample)
   \<and> unfix_state (Some (flags_of 0 sample_state)) NOTSET prepared_sample
     = (Return (), released_sample)
   \<and> map (\<lambda>(k, b). val (temperature b)) (blk sample_world) = [298.15]
   \<and> map (\<lambda>(k, b). val (temperature b)) (blk released_sample) = [600]
   \<and> blk released_sample \<noteq> blk sample_world"
proof -
  have u: "unfix_state (Some (flags_of 0 sample_state)) NOTSET prepared_sample
             = (Return (), released_sample)"
    unfolding released_sample_def prepared_sample_def
    by (rule prod_eqI)
       (simp_all add: unfix_state_def prepare_state_def sample_defs)
  have a: "map (\<lambda>(k, b). val (temperature b)) (blk sample_world) = [298.15]"
    by (simp add: sample_defs)
  have b: "map (\<lambda>(k, b). val (temperature b)) (blk released_sample) = [600]"
    unfolding released_sample_def prepared_sample_def
    by (simp add: unfix_state_def prepare_state_def revert_state_vars_def revert_var_def
        sample_defs)
  from a b have "blk released_sample \<noteq> blk sample_world"
    by auto
  with prepare_sample u a b show ?thesis
    by blast
qed

text \<open>
  C3, as amended. After \<open>prepare_state\<close> has returned, \<open>restore_state\<close> with
  \<open>hold_state\<close> true returns the flags \<open>prepare_state\<close> produced and leaves the block as
  it is; the flags are \<open>None\<close> exactly when \<open>state_vars_fixed\<close> was true, and when it was
  false every state variable is fixed. With \<open>hold_state\<close> false it runs \<open>release_state\<close>
  at once and returns \<open>None\<close>: every state variable then has the fixed/free status it had
  before \<open>prepare_state\<close>, and the constraint is active on every sub-block with
  \<open>defined_state\<close> false.
\<close>

theorem restore_state_after_prepare_state:
  assumes "distinct (map fst (blk w))"
      and "prepare_state dof state_args state_vars_fixed w = (Return flags, w1)"
  shows "restore_state flags True w1 = (Return flags, w1)
       \<and> (flags = None) = state_vars_fixed
       \<and> (state_vars_fixed \<or> list_all (\<lambda>(k, b). \<forall>n. fixed (get_var b n)) (blk w1))
       \<and> fst (restore_state flags False w1) = Return None
       \<and> events (snd (restore_state flags False w1))
           = events w @ [Info_high ''State Released.'']
       \<and> list_all2
           (\<lambda>(k', b') (k, b).
              k' = k
              \<and> (\<forall>n. fixed (get_var b' n) = fixed (get_var b n))
              \<and> mole_fraction_constraint b' =
                  (if defined_state b then mole_fraction_constraint b else Some True))
           (blk (snd (restore_state flags False w1))) (blk w)"
proof -
  note a = unfix_state_after_prepare_state [OF assms(2)]
  let ?f = "\<lambda>(k, b). (k, released state_args state_vars_fixed
                           (snd (fix_state_vars (blk w) state_args)) k b)"
  have r: "restore_state flags False w1 =
             (Return None, w\<lparr>blk := map ?f (blk w),
                             events := events w @ [Info_high ''State Released.'']\<rparr>)"
    by (simp add: restore_state_def release_state_def a(3))
  have rel: "list_all2
           (\<lambda>(k', b') (k, b).
              k' = k
              \<and> (\<forall>n. fixed (get_var b' n) = fixed (get_var b n))
              \<and> mole_fraction_constraint b' =
                  (if defined_state b then mole_fraction_constraint b else Some True))
           (map ?f (blk w)) (blk w)"
    unfolding list_all2_map1 list_all2_same
    using released_vars(1) [OF assms(1), where args = state_args and svf = state_vars_fixed]
    by (auto simp: split_def)
  have c1: "restore_state flags True w1 = (Return flags, w1)"
    by (simp add: restore_state_def)
  have c2: "(flags = None) = state_vars_fixed"
    using a(1) by simp
  have c3: "state_vars_fixed \<or> list_all (\<lambda>(k, b). \<forall>n. fixed (get_var b n)) (blk w1)"
    using a(2) prepared_all_fixed [of state_args "blk w"] by (cases state_vars_fixed) simp_all
  have c4: "fst (restore_state flags False w1) = Return None"
    by (simp add: r)
  have c5: "events (snd (restore_state flags False w1))
              = events w @ [Info_high ''State Released.'']"
    by (simp add: r)
  have c6: "blk (snd (restore_state flags False w1)) = map ?f (blk w)"
    by (simp add: r)
  from c1 c2 c3 c4 c5 rel [folded c6] show ?thesis
    by blast
qed

theorem restore_state_after_prepare_state_witness:
  "distinct (map fst (blk sample_world))
   \<and> prepare_state degrees_of_freedom sample_args False sample_world
       = (Return (Some (flags_of 0 sample_state)), prepared_sample)
   \<and> restore_state (Some (flags_of 0 sample_state)) True prepared_sample
       = (Return (Some (flags_of 0 sample_state)), prepared_sample)
   \<and> list_all (\<lambda>(k, b). \<forall>n. fixed (get_var b n)) (blk prepared_sample)
   \<and> fst (restore_state (Some (flags_of 0 sample_state)) False prepared_sample) = Return None
   \<and> events (snd (restore_state (Some (flags_of 0 sample_state)) False prepared_sample))
       = [Info_high ''State Released.'']"
proof -
  have h1: "distinct (map fst (blk sample_world))"
    by (simp add: sample_world_def)
  have e: "events sample_world = []"
    by (simp add: sample_world_def)
  show ?thesis
    using restore_state_after_prepare_state [OF h1 prepare_sample] h1 prepare_sample e
    by simp
qed

text \<open>
  With \<open>state_vars_fixed\<close> and \<open>hold_state\<close> both true, the flags that \<open>restore_state\<close>
  returns are \<open>None\<close>.
\<close>

theorem restore_state_returns_null_flags:
  "prepare_state degrees_of_freedom Map.empty True fixed_world = (Return None, fixed_world)
   \<and> restore_state None True fixed_world = (Return None, fixed_world)"
  by (simp add: prepare_state_def restore_state_def fixed_world_def inlet_state_def sample_defs)

end
